theory Spec2Isabelle
  imports Complex_Main "HOL-Library.Monad_Syntax"
begin

section \<open>JavaScript values and library functions\<close>

text \<open>
  Numbers are modelled as mathematical numbers: \<^typ>\<open>real\<close> for a float, \<^typ>\<open>int\<close> for
  a value that is an integer by construction, and \<open>None\<close> of an option type for \<open>NaN\<close>
  where parsing can produce it. Rounding of floats and the infinities are outside the
  model; a divisor is required to be non-zero where HOL and JavaScript differ.

  A string is a list of code units, one \<^typ>\<open>char\<close> each (code units below 256).
\<close>

definition isWhiteSpace :: "char \<Rightarrow> bool" where
  \<comment> \<open>WhiteSpace and LineTerminator code units below 256: what \<open>parseInt\<close> trims and
      what the regular expression class \<open>\s\<close> matches.\<close>
  "isWhiteSpace c = (let n = (of_char c :: nat) in
     n = 9 \<or> n = 10 \<or> n = 11 \<or> n = 12 \<or> n = 13 \<or> n = 32 \<or> n = 160)"

definition isDigit :: "char \<Rightarrow> bool" where
  \<comment> \<open>the regular expression class \<open>\d\<close>\<close>
  "isDigit c = (let n = (of_char c :: nat) in 48 \<le> n \<and> n \<le> 57)"

definition isDigitOrDot :: "char \<Rightarrow> bool" where
  \<comment> \<open>the regular expression class \<open>[\d.]\<close>\<close>
  "isDigitOrDot c = (isDigit c \<or> c = CHR ''.'')"

definition digitVal :: "char \<Rightarrow> nat option" where
  "digitVal c = (let n = (of_char c :: nat) in
     if 48 \<le> n \<and> n \<le> 57 then Some (n - 48)
     else if 97 \<le> n \<and> n \<le> 122 then Some (n - 87)
     else if 65 \<le> n \<and> n \<le> 90 then Some (n - 55)
     else None)"

definition isRadixDigit :: "nat \<Rightarrow> char \<Rightarrow> bool" where
  "isRadixDigit R c = (case digitVal c of None \<Rightarrow> False | Some v \<Rightarrow> v < R)"

definition digitsValue :: "nat \<Rightarrow> string \<Rightarrow> nat" where
  "digitsValue R cs =
     foldl (\<lambda>acc c. acc * R + (case digitVal c of None \<Rightarrow> 0 | Some v \<Rightarrow> v)) 0 cs"

definition startsWith :: "string \<Rightarrow> string \<Rightarrow> bool" where
  \<comment> \<open>\<open>s.startsWith(p)\<close>\<close>
  "startsWith p s = (take (length p) s = p)"

definition slice :: "string \<Rightarrow> nat \<Rightarrow> nat \<Rightarrow> string" where
  \<comment> \<open>\<open>s.slice(i, j)\<close> for \<open>0 \<le> i \<le> j\<close>: both indices are capped at the length.\<close>
  "slice s i j = take (j - i) (drop i s)"

definition parseInt :: "string \<Rightarrow> nat option \<Rightarrow> int option" where
  \<comment> \<open>\<open>parseInt(str, radix)\<close>, for the two ways the program calls it: radix 16
      (\<open>Some 16\<close>) and no radix (\<open>None\<close>, decimal unless the string has a hex prefix).
      Leading white space is trimmed, a sign is read, a \<open>0x\<close> prefix is dropped, and the
      longest run of digits of the radix is the value; \<open>NaN\<close> when the run is empty.\<close>
  "parseInt str radix =
     (let s = dropWhile isWhiteSpace str;
          sign = (case s of [] \<Rightarrow> (1::int) | c # _ \<Rightarrow> if c = CHR ''-'' then - 1 else 1);
          s1 = (case s of [] \<Rightarrow> s
                | c # rest \<Rightarrow> if c = CHR ''+'' \<or> c = CHR ''-'' then rest else s);
          R0 = (case radix of None \<Rightarrow> 10 | Some n \<Rightarrow> n);
          stripPrefix = (case radix of None \<Rightarrow> True | Some n \<Rightarrow> n = 16);
          hasPrefix = (stripPrefix \<and> (take 2 s1 = ''0x'' \<or> take 2 s1 = ''0X''));
          R = (if hasPrefix then 16 else R0);
          s2 = (if hasPrefix then drop 2 s1 else s1);
          z = takeWhile (isRadixDigit R) s2
      in if z = [] then None else Some (sign * int (digitsValue R z)))"

definition parseFloat :: "string \<Rightarrow> real option" where
  \<comment> \<open>\<open>parseFloat(str)\<close> on a string of decimal digits and dots, the only strings the
      program passes (group 4 of the colour pattern): the longest prefix of the form
      \<open>digits\<close>, \<open>digits.digits\<close>, \<open>digits.\<close> or \<open>.digits\<close> is the value; \<open>NaN\<close> when
      there is none.\<close>
  "parseFloat str =
     (let ip = takeWhile isDigit str;
          rest = drop (length ip) str;
          fp = (case rest of [] \<Rightarrow> []
                | c # t \<Rightarrow> if c = CHR ''.'' then takeWhile isDigit t else [])
      in if ip = [] \<and> fp = [] then None
         else Some (real (digitsValue 10 ip) + real (digitsValue 10 fp) / 10 ^ length fp))"

definition js_round :: "real \<Rightarrow> int" where
  \<comment> \<open>\<open>Math.round\<close>: to the nearest integer, a half rounds up.\<close>
  "js_round x = \<lfloor>x + 1 / 2\<rfloor>"

definition nanTo :: "'a \<Rightarrow> 'a option \<Rightarrow> 'a" where
  \<comment> \<open>\<open>isNaN(v) ? d : v\<close>\<close>
  "nanTo d v = (case v of None \<Rightarrow> d | Some x \<Rightarrow> x)"

fun showNat :: "nat \<Rightarrow> string" where
  \<comment> \<open>the decimal digits of a natural number\<close>
  "showNat n = (if n < 10 then [char_of (48 + n)]
                else showNat (n div 10) @ [char_of (48 + n mod 10)])"

declare showNat.simps [simp del]

definition numberToString :: "(real \<Rightarrow> string) \<Rightarrow> real option \<Rightarrow> string" where
  \<comment> \<open>the conversion of a number to a string in a template literal: \<open>NaN\<close> prints as
      \<open>NaN\<close> and an integer (of magnitude below \<open>10\<^sup>2\<^sup>1\<close>) as its decimal digits; the
      digits of a number that is not an integer are left to \<open>showFrac\<close>.\<close>
  "numberToString showFrac v =
     (case v of None \<Rightarrow> ''NaN''
      | Some x \<Rightarrow>
          if x = real_of_int \<lfloor>x\<rfloor> then
            (if x < 0 then ''-'' @ showNat (nat (- \<lfloor>x\<rfloor>)) else showNat (nat \<lfloor>x\<rfloor>))
          else showFrac x)"

section \<open>ColorModel\<close>

subsection \<open>The colour pattern\<close>

text \<open>
  Both backends match \<^verbatim>\<open>/rgba?\((\d+),\s*(\d+),\s*(\d+)(?:,\s*([\d.]+))?\)/\<close> with
  \<open>String.match\<close>: the leftmost position where the pattern matches, and its four groups
  (the fourth is undefined when the optional part does not take part). Every greedy
  repetition of the pattern is followed by a character outside its class, so the
  longest run is the only one that can match; the two optional parts are tried first
  with and then without, as the backtracking matcher does.
\<close>

definition expectChar :: "char \<Rightarrow> string \<Rightarrow> string option" where
  "expectChar c s = (case s of [] \<Rightarrow> None | x # t \<Rightarrow> if x = c then Some t else None)"

definition takeMany1 :: "(char \<Rightarrow> bool) \<Rightarrow> string \<Rightarrow> (string \<times> string) option" where
  "takeMany1 p s = (let t = takeWhile p s in if t = [] then None else Some (t, dropWhile p s))"

definition matchAlpha :: "string \<Rightarrow> string option option" where
  \<comment> \<open>\<open>(?:,\s*([\d.]+))?\)\<close>\<close>
  "matchAlpha s =
     (case do { s1 \<leftarrow> expectChar CHR '','' s;
                (d4, s2) \<leftarrow> takeMany1 isDigitOrDot (dropWhile isWhiteSpace s1);
                _ \<leftarrow> expectChar CHR '')'' s2;
                Some (Some d4) } of
        Some m \<Rightarrow> Some m
      | None \<Rightarrow> do { _ \<leftarrow> expectChar CHR '')'' s; Some None })"

definition matchArgs :: "string \<Rightarrow> (string \<times> string \<times> string \<times> string option) option" where
  \<comment> \<open>\<open>\((\d+),\s*(\d+),\s*(\d+)\<close> and the rest\<close>
  "matchArgs s =
     do { s0 \<leftarrow> expectChar CHR ''('' s;
          (d1, s1) \<leftarrow> takeMany1 isDigit s0;
          s2 \<leftarrow> expectChar CHR '','' s1;
          (d2, s3) \<leftarrow> takeMany1 isDigit (dropWhile isWhiteSpace s2);
          s4 \<leftarrow> expectChar CHR '','' s3;
          (d3, s5) \<leftarrow> takeMany1 isDigit (dropWhile isWhiteSpace s4);
          m4 \<leftarrow> matchAlpha s5;
          Some (d1, d2, d3, m4) }"

definition matchRgbaAt :: "string \<Rightarrow> (string \<times> string \<times> string \<times> string option) option" where
  \<comment> \<open>the pattern at the head of the string\<close>
  "matchRgbaAt s =
     (if startsWith ''rgb'' s then
        (let s1 = drop 3 s in
         case do { s2 \<leftarrow> expectChar CHR ''a'' s1; matchArgs s2 } of
           Some m \<Rightarrow> Some m
         | None \<Rightarrow> matchArgs s1)
      else None)"

fun matchRgba :: "string \<Rightarrow> (string \<times> string \<times> string \<times> string option) option" where
  "matchRgba [] = matchRgbaAt []"
| "matchRgba (c # cs) =
     (case matchRgbaAt (c # cs) of Some m \<Rightarrow> Some m | None \<Rightarrow> matchRgba cs)"

subsection \<open>Parsing\<close>

text \<open>The object \<open>{r, g, b, a}\<close>; a channel is \<open>None\<close> when it is \<open>NaN\<close>.\<close>

record rgba =
  chan_r :: "int option"
  chan_g :: "int option"
  chan_b :: "int option"
  chan_a :: "real option"

definition mkRgba :: "int option \<Rightarrow> int option \<Rightarrow> int option \<Rightarrow> real option \<Rightarrow> rgba" where
  "mkRgba r g b a = \<lparr>chan_r = r, chan_g = g, chan_b = b, chan_a = a\<rparr>"

definition parseColor :: "string \<Rightarrow> rgba" where
  \<comment> \<open>\<open>parseColor\<close> inside \<open>interpolateColor\<close> (PixelGridCanvas.tsx)\<close>
  "parseColor color =
     (if color = [] then mkRgba (Some 0) (Some 0) (Some 0) (Some 1)
      else if startsWith ''#'' color then
        mkRgba (parseInt (slice color 1 3) (Some 16))
               (parseInt (slice color 3 5) (Some 16))
               (parseInt (slice color 5 7) (Some 16))
               (Some 1)
      else
        (case matchRgba color of
           Some (m1, m2, m3, m4) \<Rightarrow>
             mkRgba (parseInt m1 None) (parseInt m2 None) (parseInt m3 None)
                    (case m4 of None \<Rightarrow> Some 1 | Some t \<Rightarrow> parseFloat t)
         | None \<Rightarrow> mkRgba (Some 0) (Some 0) (Some 0) (Some 1)))"

definition parseHex :: "string \<Rightarrow> int \<times> int \<times> int" where
  \<comment> \<open>\<open>parseHex\<close> (MobileGridFallback.tsx): \<open>{r, g, b}\<close>\<close>
  "parseHex hex =
     (if hex = [] then (0, 0, 0)
      else
        (let cleanHex = (if startsWith ''#'' hex then drop 1 hex else hex);
             (r, g, b) =
               (if length cleanHex = 3 then
                  (parseInt [cleanHex ! 0, cleanHex ! 0] (Some 16),
                   parseInt [cleanHex ! 1, cleanHex ! 1] (Some 16),
                   parseInt [cleanHex ! 2, cleanHex ! 2] (Some 16))
                else if length cleanHex = 6 then
                  (parseInt (slice cleanHex 0 2) (Some 16),
                   parseInt (slice cleanHex 2 4) (Some 16),
                   parseInt (slice cleanHex 4 6) (Some 16))
                else (Some 0, Some 0, Some 0))
         in (nanTo 0 r, nanTo 0 g, nanTo 0 b)))"

definition parseColor_mobile :: "string \<Rightarrow> rgba" where
  \<comment> \<open>\<open>parseColor\<close> (MobileGridFallback.tsx)\<close>
  "parseColor_mobile color =
     (if color = [] then mkRgba (Some 0) (Some 0) (Some 0) (Some 0)
      else
        (case (if startsWith ''rgba'' color \<or> startsWith ''rgb'' color
               then matchRgba color else None) of
           Some (m1, m2, m3, m4) \<Rightarrow>
             mkRgba (Some (nanTo 0 (parseInt m1 None)))
                    (Some (nanTo 0 (parseInt m2 None)))
                    (Some (nanTo 0 (parseInt m3 None)))
                    (Some (nanTo 1 (case m4 of None \<Rightarrow> Some 1 | Some t \<Rightarrow> parseFloat t)))
         | None \<Rightarrow>
             if startsWith ''#'' color then
               (case parseHex color of (r, g, b) \<Rightarrow> mkRgba (Some r) (Some g) (Some b) (Some 1))
             else mkRgba (Some 0) (Some 0) (Some 0) (Some 1)))"

subsection \<open>Interpolation\<close>

definition lerp :: "real option \<Rightarrow> real option \<Rightarrow> real \<Rightarrow> real option" where
  \<comment> \<open>\<open>c1 + (c2 - c1) * f\<close>; \<open>NaN\<close> when an operand is\<close>
  "lerp c1 c2 f =
     (case c1 of None \<Rightarrow> None
      | Some u \<Rightarrow> (case c2 of None \<Rightarrow> None | Some v \<Rightarrow> Some (u + (v - u) * f)))"

definition lerpRound :: "int option \<Rightarrow> int option \<Rightarrow> real \<Rightarrow> int option" where
  \<comment> \<open>\<open>Math.round(c1 + (c2 - c1) * f)\<close>\<close>
  "lerpRound c1 c2 f = map_option js_round (lerp (map_option real_of_int c1) (map_option real_of_int c2) f)"

definition interpolateChannels :: "string \<Rightarrow> string \<Rightarrow> real \<Rightarrow> rgba" where
  \<comment> \<open>the four numbers \<open>interpolateColor\<close> puts into its result\<close>
  "interpolateChannels color1 color2 factor =
     (let clampedFactor = max 0 (min 1 factor);
          color1Rgb = parseColor color1;
          color2Rgb = parseColor color2
      in mkRgba (lerpRound (chan_r color1Rgb) (chan_r color2Rgb) clampedFactor)
                (lerpRound (chan_g color1Rgb) (chan_g color2Rgb) clampedFactor)
                (lerpRound (chan_b color1Rgb) (chan_b color2Rgb) clampedFactor)
                (lerp (chan_a color1Rgb) (chan_a color2Rgb) clampedFactor))"

definition interpolateColor :: "(real option \<Rightarrow> string) \<Rightarrow> string \<Rightarrow> string \<Rightarrow> real \<Rightarrow> string" where
  \<comment> \<open>\<open>interpolateColor\<close> (PixelGridCanvas.tsx): the template string over the four
      numbers; \<open>str\<close> is the language's conversion of a number to a string.\<close>
  "interpolateColor str color1 color2 factor =
     (let c = interpolateChannels color1 color2 factor
      in ''rgba('' @ str (map_option real_of_int (chan_r c)) @ '', ''
           @ str (map_option real_of_int (chan_g c)) @ '', ''
           @ str (map_option real_of_int (chan_b c)) @ '', ''
           @ str (chan_a c) @ '')'')"

section \<open>Configuration and shared values\<close>

datatype lightingShape = ShapeCircular | ShapeLinear | ShapeRadial | ShapeRandom | ShapeOther

datatype lightingMode =
  ModeGradient | ModeSimple | ModePulse | ModeSolid | ModeHighlight | ModeUniform

datatype colorMode = ColorSingle | ColorGradient | ColorRandom | ColorOther

text \<open>
  The props of \<open>PixelGridCanvas\<close> that the lighting and colour of a cell read.
  \<open>lightingMode\<close> has no default in this component, so it may be undefined (\<open>None\<close>);
  \<open>ShapeOther\<close> and \<open>ColorOther\<close> stand for the values that reach the \<open>default\<close>
  branches of the two \<open>switch\<close> statements.
\<close>

record props =
  lightingShape :: lightingShape
  lightingMode :: "lightingMode option"
  colorMode :: colorMode
  colorPalette :: "string list"
  interactionRadius :: real
  autoWave :: bool

text \<open>The shared values \<open>touchX\<close>, \<open>touchY\<close>, \<open>isTouching\<close> and \<open>waveTime\<close>.\<close>

record shared =
  touchX :: real
  touchY :: real
  isTouching :: bool
  waveTime :: real

text \<open>The theme colours \<open>drawCell\<close> reads; a missing field is \<open>None\<close>.\<close>

record colors =
  background :: "string option"
  primary :: "string option"
  secondary :: "string option"

section \<open>IntensityField: the lighting of a cell in \<open>drawCell\<close>\<close>

definition distance :: "real \<Rightarrow> real \<Rightarrow> real \<Rightarrow> real \<Rightarrow> real" where
  \<comment> \<open>\<open>Math.sqrt(Math.pow(x - x0, 2) + Math.pow(y - y0, 2))\<close>\<close>
  "distance x y x0 y0 = sqrt ((x - x0)\<^sup>2 + (y - y0)\<^sup>2)"

definition shapeIntensity ::
  "props \<Rightarrow> shared \<Rightarrow> real \<Rightarrow> real \<Rightarrow> nat \<Rightarrow> nat \<Rightarrow> real \<Rightarrow> real \<Rightarrow> real" where
  \<comment> \<open>the \<open>switch (lightingShape)\<close> of \<open>drawCell\<close>: the cell at pixel \<open>(x, y)\<close>, grid
      position \<open>(col, row)\<close>, on a canvas of \<open>width\<close> by \<open>height\<close>\<close>
  "shapeIntensity p s x y col row width height =
     (let centerX = width / 2;
          centerY = height / 2;
          isInteractive = (isTouching s \<or> autoWave p)
      in case lightingShape p of
        ShapeCircular \<Rightarrow>
          (let touchDistance = distance x y (touchX s) (touchY s)
           in if isInteractive then
                (let intensity = max 0 (1 - touchDistance / interactionRadius p)
                 in if autoWave p then
                      (let waveEffect = sin (touchDistance * 0.05 - waveTime s * 3) * 0.3
                       in max 0 (intensity + waveEffect))
                    else intensity)
              else 0)
      | ShapeLinear \<Rightarrow>
          (if isInteractive then
             (let baseIntensity = x / width;
                  touchDistance = distance x y (touchX s) (touchY s);
                  touchIntensity = max 0 (1 - touchDistance / (interactionRadius p * 1.5));
                  waveEffect = (if autoWave p then sin (x * 0.02 + waveTime s * 2) * 0.3 else 0);
                  intensity = baseIntensity * 0.3 + touchIntensity * 0.5 + waveEffect
              in max 0 (min 1 intensity))
           else x / width)
      | ShapeRadial \<Rightarrow>
          (let radialDist = distance x y centerX centerY;
               maxRadius = sqrt ((width / 2)\<^sup>2 + (height / 2)\<^sup>2);
               radialIntensity = 1 - radialDist / maxRadius
           in if isInteractive then
                (let touchDistance = distance x y (touchX s) (touchY s);
                     touchIntensity = max 0 (1 - touchDistance / interactionRadius p);
                     waveEffect =
                       (if autoWave p then sin (radialDist * 0.05 - waveTime s * 2) * 0.3 else 0);
                     intensity = radialIntensity * 0.4 + touchIntensity * 0.4 + waveEffect
                 in max 0 (min 1 intensity))
              else radialIntensity)
      | ShapeRandom \<Rightarrow>
          (let seed = real ((col * 100 + row) mod 1000) / 1000
           in if isInteractive then
                (let touchDistance = distance x y (touchX s) (touchY s);
                     touchIntensity = max 0 (1 - touchDistance / interactionRadius p);
                     waveEffect =
                       (if autoWave p then sin (seed * 10 + waveTime s * 3) * 0.3 else 0);
                     intensity = seed * 0.4 + touchIntensity * 0.4 + waveEffect
                 in max 0 (min 1 intensity))
              else seed)
      | ShapeOther \<Rightarrow>
          (let defaultDistance = distance x y (touchX s) (touchY s)
           in max 0 (1 - defaultDistance / interactionRadius p)))"

definition lightingModeAdjust :: "lightingMode option \<Rightarrow> real \<Rightarrow> real \<Rightarrow> real" where
  \<comment> \<open>"Apply lighting mode adjustments to intensity"\<close>
  "lightingModeAdjust mode t intensity =
     (if mode = Some ModeUniform then 1
      else if mode = Some ModePulse then intensity * (0.5 + 0.5 * sin (t * 5))
      else intensity)"

definition cellIntensity ::
  "props \<Rightarrow> shared \<Rightarrow> real \<Rightarrow> real \<Rightarrow> nat \<Rightarrow> nat \<Rightarrow> real \<Rightarrow> real \<Rightarrow> real" where
  \<comment> \<open>the value of \<open>intensity\<close> in \<open>drawCell\<close> when the cell colour is chosen\<close>
  "cellIntensity p s x y col row width height =
     lightingModeAdjust (lightingMode p) (waveTime s) (shapeIntensity p s x y col row width height)"

section \<open>ColorSelector: the colour of a cell in \<open>drawCell\<close>\<close>

definition orDefault :: "string option \<Rightarrow> string \<Rightarrow> string" where
  \<comment> \<open>\<open>v || d\<close>: an undefined or empty string gives the default\<close>
  "orDefault v d = (case v of None \<Rightarrow> d | Some c \<Rightarrow> if c = [] then d else c)"

definition cellColor ::
  "(real option \<Rightarrow> string) \<Rightarrow> props \<Rightarrow> colors \<Rightarrow> real \<Rightarrow> real \<Rightarrow> nat \<Rightarrow> nat \<Rightarrow> real \<Rightarrow> string" where
  \<comment> \<open>the \<open>switch (colorMode)\<close> of \<open>drawCell\<close>\<close>
  "cellColor str p cs x width col row intensity =
     (case colorMode p of
        ColorSingle \<Rightarrow>
          interpolateColor str (orDefault (background cs) ''#000000'')
            (orDefault (primary cs) ''#ffffff'') intensity
      | ColorGradient \<Rightarrow>
          (let t = x / width;
               gradientStart = orDefault (primary cs) ''#ff0000'';
               gradientEnd = orDefault (secondary cs) ''#00ffff'';
               baseColor = interpolateColor str gradientStart gradientEnd t
           in interpolateColor str (orDefault (background cs) ''#000000'') baseColor intensity)
      | ColorRandom \<Rightarrow>
          (if 0 < length (colorPalette p) then
             (let index = (col + row * 3) mod length (colorPalette p);
                  randomColor = colorPalette p ! index
              in interpolateColor str (orDefault (background cs) ''#000000'') randomColor intensity)
           else
             interpolateColor str (orDefault (background cs) ''#000000'')
               (orDefault (primary cs) ''#ffffff'') intensity)
      | ColorOther \<Rightarrow>
          interpolateColor str (orDefault (background cs) ''#000000'')
            (orDefault (primary cs) ''#ffffff'') intensity)"

section \<open>WaveSystem\<close>














section \<open>Particles\<close>

definition sliceLast :: "nat \<Rightarrow> 'a list \<Rightarrow> 'a list" where
  \<comment> \<open>\<open>xs.slice(-n)\<close>: the last \<open>n\<close> elements, all of them when there are fewer\<close>
  "sliceLast n xs = drop (length xs - n) xs"

text \<open>A particle of PixelGridCanvas.tsx.\<close>

record particle =
  p_x :: real
  p_y :: real
  p_size :: real
  p_color :: string
  life :: real
  decay :: real

definition newParticle :: "real \<Rightarrow> real \<Rightarrow> real \<times> real \<times> real \<times> real \<Rightarrow> particle" where
  \<comment> \<open>one turn of the loop of \<open>createParticles\<close>, with its four \<open>Math.random()\<close> draws\<close>
  "newParticle x y rs =
     (case rs of (r1, r2, r3, r4) \<Rightarrow>
        (let angle = r1 * pi * 2;
             dist = r2 * 10
         in \<lparr>p_x = x + cos angle * dist, p_y = y + sin angle * dist, p_size = r3 * 3 + 1,
             p_color = ''rgba(255, 255, 255, 0.8)'', life = 1, decay = 0.05 + r4 * 0.05\<rparr>))"

definition createParticles ::
  "bool \<Rightarrow> real \<Rightarrow> real \<Rightarrow> (nat \<Rightarrow> real \<times> real \<times> real \<times> real) \<Rightarrow> particle list \<Rightarrow> particle list" where
  \<comment> \<open>\<open>createParticles(x, y)\<close> as a function of the particle state; \<open>rnd i\<close> are the
      random draws of turn \<open>i\<close>\<close>
  "createParticles enableParticles x y rnd prevParticles =
     (if \<not> enableParticles then prevParticles
      else
        (let particleCount = 5;
             newParticles = map (\<lambda>i. newParticle x y (rnd i)) [0..<particleCount];
             maxParticles = 50;
             combinedParticles = prevParticles @ newParticles
         in sliceLast maxParticles combinedParticles))"

definition drawParticles :: "bool \<Rightarrow> particle list \<Rightarrow> particle list" where
  \<comment> \<open>the particle state that \<open>drawParticles\<close> sets\<close>
  "drawParticles enableParticles particles =
     (if \<not> enableParticles \<or> particles = [] then particles
      else filter (\<lambda>p. life p > 0) (map (\<lambda>p. p\<lparr>life := life p - decay p\<rparr>) particles))"

datatype particleOp =
  Spawn real real "nat \<Rightarrow> real \<times> real \<times> real \<times> real"
  | Tick

fun particleStep :: "bool \<Rightarrow> particleOp \<Rightarrow> particle list \<Rightarrow> particle list" where
  "particleStep en (Spawn x y rnd) ps = createParticles en x y rnd ps"
| "particleStep en Tick ps = drawParticles en ps"

fun runParticles :: "bool \<Rightarrow> particleOp list \<Rightarrow> particle list \<Rightarrow> particle list" where
  "runParticles en [] ps = ps"
| "runParticles en (opn # ops) ps = runParticles en ops (particleStep en opn ps)"

definition unitDraw :: "real \<Rightarrow> bool" where
  \<comment> \<open>what \<open>Math.random()\<close> returns\<close>
  "unitDraw u = (0 \<le> u \<and> u < 1)"

fun validOp :: "particleOp \<Rightarrow> bool" where
  "validOp (Spawn x y rnd) =
     list_all (\<lambda>i. case rnd i of (r1, r2, r3, r4) \<Rightarrow>
                 unitDraw r1 \<and> unitDraw r2 \<and> unitDraw r3 \<and> unitDraw r4) [0..<5]"
| "validOp Tick = True"

text \<open>A particle of MobileGridFallback.tsx: its opacity is its life.\<close>

record mobileParticle =
  mp_id :: real
  mp_x :: real
  mp_y :: real
  mp_size :: real
  mp_color :: "string option"
  opacity :: real
  mp_vx :: real
  mp_vy :: real

definition newParticle_mobile ::
  "string list \<Rightarrow> real \<Rightarrow> real \<Rightarrow> real \<times> real \<times> real \<times> real \<times> real \<times> real \<Rightarrow> mobileParticle" where
  \<comment> \<open>one turn of the loop of \<open>createParticles\<close>, with its six random draws in the order
      angle, speed, id, size, colour, opacity; an index outside the palette reads
      \<open>undefined\<close>\<close>
  "newParticle_mobile palette x y rs =
     (case rs of (r1, r2, r3, r4, r5, r6) \<Rightarrow>
        (let angle = r1 * pi * 2;
             speed = 1 + r2 * 2;
             k = nat \<lfloor>r5 * real (length palette)\<rfloor>
         in \<lparr>mp_id = r3, mp_x = x, mp_y = y, mp_size = 2 + r4 * 3,
             mp_color = (if k < length palette then Some (palette ! k) else None),
             opacity = 0.7 + r6 * 0.3, mp_vx = cos angle * speed, mp_vy = sin angle * speed\<rparr>))"

definition createParticles_mobile ::
  "bool \<Rightarrow> string list \<Rightarrow> real \<Rightarrow> real \<Rightarrow> real
     \<Rightarrow> (nat \<Rightarrow> real \<times> real \<times> real \<times> real \<times> real \<times> real)
     \<Rightarrow> mobileParticle list \<Rightarrow> mobileParticle list" where
  "createParticles_mobile enableParticles palette x y intensity rnd prev =
     (if \<not> enableParticles then prev
      else
        (let particleCount = nat \<lfloor>3 + intensity * 2\<rfloor>;
             newParticles = map (\<lambda>i. newParticle_mobile palette x y (rnd i)) [0..<particleCount]
         in sliceLast 30 (prev @ newParticles)))"

definition updateParticles_mobile :: "mobileParticle list \<Rightarrow> mobileParticle list" where
  \<comment> \<open>the update of the 33 ms interval\<close>
  "updateParticles_mobile prev =
     filter (\<lambda>p. opacity p > 0)
       (map (\<lambda>p. p\<lparr>mp_x := mp_x p + mp_vx p, mp_y := mp_y p + mp_vy p,
                    opacity := opacity p - 0.05\<rparr>) prev)"

datatype mobileParticleOp =
  MSpawn real real real "nat \<Rightarrow> real \<times> real \<times> real \<times> real \<times> real \<times> real"
  | MTick

fun mobileParticleStep ::
  "bool \<Rightarrow> string list \<Rightarrow> mobileParticleOp \<Rightarrow> mobileParticle list \<Rightarrow> mobileParticle list" where
  "mobileParticleStep en pal (MSpawn x y i rnd) ps = createParticles_mobile en pal x y i rnd ps"
| "mobileParticleStep en pal MTick ps = updateParticles_mobile ps"

fun runParticles_mobile ::
  "bool \<Rightarrow> string list \<Rightarrow> mobileParticleOp list \<Rightarrow> mobileParticle list \<Rightarrow> mobileParticle list" where
  "runParticles_mobile en pal [] ps = ps"
| "runParticles_mobile en pal (opn # ops) ps =
     runParticles_mobile en pal ops (mobileParticleStep en pal opn ps)"

section \<open>Pointer state and the settle timer\<close>

text \<open>
  Time is a clock in milliseconds. \<open>setTimeout(f, d)\<close> called at time \<open>t\<close> adds \<open>t + d\<close>
  to the pending timers; letting time pass runs the callback once for every timer that
  has come due. All timers of a backend run the same callback, which reads nothing but
  the pointer state, so the order among timers that come due together does not matter.
  The sound, haptics and particle hooks and the draw-mode callback of the handlers do
  not touch the pointer state and are left out.
\<close>

datatype gesture = Begin real real | Update real real | End | Elapse nat

subsection \<open>PixelGridCanvas.tsx\<close>

text \<open>
  The pointer position of the canvas backend has three writers: the gesture handlers,
  the callback of the settle timer, and \<open>drawGrid\<close>, which on every frame moves the
  pointer along the autoWave trajectory when autoWave is on and the pointer is up. The
  animation loop \<open>updateWaveTime\<close> advances the wave time and ages the trail. The
  canvas is redrawn without pause, so a period of time ends with a frame.
\<close>

record canvasPointer = shared +
  trailPositions :: "(real \<times> real \<times> real) list"
  timers :: "nat list"
  now :: nat

text \<open>The props, the animation speed and the size of the canvas that \<open>drawGrid\<close> is given.\<close>

record canvasView = props +
  animationSpeed :: real
  drawWidth :: real
  drawHeight :: real

definition canvasInit :: canvasPointer where
  "canvasInit = \<lparr>touchX = - 100, touchY = - 100, isTouching = False, waveTime = 0,
                 trailPositions = [], timers = [], now = 0\<rparr>"

definition onBegin :: "real \<Rightarrow> real \<Rightarrow> canvasPointer \<Rightarrow> canvasPointer" where
  "onBegin ex ey s = s\<lparr>touchX := ex, touchY := ey, isTouching := True, trailPositions := []\<rparr>"

definition onUpdate :: "real \<Rightarrow> real \<Rightarrow> canvasPointer \<Rightarrow> canvasPointer" where
  "onUpdate ex ey s =
     (let newPositions = trailPositions s @ [(ex, ey, 0)]
      in s\<lparr>touchX := ex, touchY := ey,
           trailPositions := (if length newPositions > 10 then drop 1 newPositions
                              else newPositions)\<rparr>)"

definition onEnd :: "canvasPointer \<Rightarrow> canvasPointer" where
  "onEnd s = s\<lparr>isTouching := False, timers := timers s @ [now s + 500]\<rparr>"

definition timeoutCallback :: "canvasPointer \<Rightarrow> canvasPointer" where
  \<comment> \<open>the function that \<open>onEnd\<close> passes to \<open>setTimeout\<close>\<close>
  "timeoutCallback s =
     (if \<not> isTouching s then s\<lparr>touchX := - 100, touchY := - 100, trailPositions := []\<rparr>
      else s)"

definition updateWaveTime :: "real \<Rightarrow> real \<Rightarrow> canvasPointer \<Rightarrow> canvasPointer" where
  \<comment> \<open>\<open>updateWaveTime\<close> over frames whose \<open>deltaTime\<close> add up to \<open>elapsed\<close> milliseconds\<close>
  "updateWaveTime speed elapsed s =
     s\<lparr>waveTime := waveTime s + elapsed * 0.001 * speed,
       trailPositions :=
         filter (\<lambda>(px, py, age). age < 1.5)
           (map (\<lambda>(px, py, age). (px, py, age + elapsed * 0.001 * speed)) (trailPositions s))\<rparr>"

definition autoWavePointer :: "canvasView \<Rightarrow> canvasPointer \<Rightarrow> canvasPointer" where
  \<comment> \<open>"Update touch position for autoWave if needed" in \<open>drawGrid\<close>\<close>
  "autoWavePointer v s =
     (let width = drawWidth v; height = drawHeight v in
      if autoWave v \<and> \<not> isTouching s then
        (case lightingShape v of
           ShapeCircular \<Rightarrow>
             (let radius = min width height * 0.3
              in s\<lparr>touchX := width / 2 + cos (waveTime s) * radius,
                   touchY := height / 2 + sin (waveTime s) * radius\<rparr>)
         | ShapeLinear \<Rightarrow>
             s\<lparr>touchX := ((sin (waveTime s) + 1) * width) / 2, touchY := height / 2\<rparr>
         | ShapeRadial \<Rightarrow> s\<lparr>touchX := width / 2, touchY := height / 2\<rparr>
         | ShapeRandom \<Rightarrow>
             s\<lparr>touchX := width / 2 + sin (waveTime s * 1.3) * width * 0.4,
               touchY := height / 2 + cos (waveTime s * 0.7) * height * 0.4\<rparr>
         | ShapeOther \<Rightarrow> s)
      else s)"

definition elapse :: "canvasView \<Rightarrow> nat \<Rightarrow> canvasPointer \<Rightarrow> canvasPointer" where
  \<comment> \<open>\<open>d\<close> milliseconds pass: the timers that come due fire, the animation loop has
      advanced the wave time, and a frame is drawn at the end\<close>
  "elapse v d s =
     (let t = now s + d;
          due = filter (\<lambda>u. u \<le> t) (timers s);
          s1 = fold (\<lambda>_. timeoutCallback) due s;
          s2 = updateWaveTime (animationSpeed v) (real d) s1;
          s3 = autoWavePointer v s2
      in s3\<lparr>timers := filter (\<lambda>u. t < u) (timers s), now := t\<rparr>)"

fun canvasStep :: "canvasView \<Rightarrow> gesture \<Rightarrow> canvasPointer \<Rightarrow> canvasPointer" where
  "canvasStep v (Begin ex ey) s = onBegin ex ey s"
| "canvasStep v (Update ex ey) s = onUpdate ex ey s"
| "canvasStep v End s = onEnd s"
| "canvasStep v (Elapse d) s = elapse v d s"

fun canvasRun :: "canvasView \<Rightarrow> gesture list \<Rightarrow> canvasPointer \<Rightarrow> canvasPointer" where
  "canvasRun v [] s = s"
| "canvasRun v (e # es) s = canvasRun v es (canvasStep v e s)"

subsection \<open>MobileGridFallback.tsx\<close>

record mobilePointer =
  m_touchX :: real
  m_touchY :: real
  isTouchActive :: bool
  frameRateLimiter :: nat
  m_timers :: "nat list"
  m_now :: nat

definition mobileInit :: mobilePointer where
  "mobileInit = \<lparr>m_touchX = - 100, m_touchY = - 100, isTouchActive = False,
                 frameRateLimiter = 0, m_timers = [], m_now = 0\<rparr>"

definition onBegin_mobile :: "real \<Rightarrow> real \<Rightarrow> mobilePointer \<Rightarrow> mobilePointer" where
  "onBegin_mobile ex ey s = s\<lparr>m_touchX := ex, m_touchY := ey, isTouchActive := True\<rparr>"

definition onUpdate_mobile :: "real \<Rightarrow> real \<Rightarrow> mobilePointer \<Rightarrow> mobilePointer" where
  "onUpdate_mobile ex ey s =
     (let s1 = s\<lparr>frameRateLimiter := frameRateLimiter s + 1\<rparr>
      in if frameRateLimiter s1 mod 2 = 0
         then s1\<lparr>m_touchX := ex, m_touchY := ey, isTouchActive := True\<rparr>
         else s1)"

definition delayTime :: "lightingMode \<Rightarrow> nat" where
  "delayTime mode = (if mode = ModeSimple \<or> mode = ModeHighlight then 800 else 500)"

definition onEnd_mobile :: "lightingMode \<Rightarrow> mobilePointer \<Rightarrow> mobilePointer" where
  "onEnd_mobile mode s = s\<lparr>m_timers := m_timers s @ [m_now s + delayTime mode]\<rparr>"

definition timeoutCallback_mobile :: "mobilePointer \<Rightarrow> mobilePointer" where
  \<comment> \<open>the function that \<open>onEnd\<close> passes to \<open>setTimeout\<close>\<close>
  "timeoutCallback_mobile s = s\<lparr>m_touchX := - 100, m_touchY := - 100, isTouchActive := False\<rparr>"

definition elapse_mobile :: "nat \<Rightarrow> mobilePointer \<Rightarrow> mobilePointer" where
  "elapse_mobile d s =
     (let t = m_now s + d;
          due = filter (\<lambda>u. u \<le> t) (m_timers s);
          s1 = fold (\<lambda>_. timeoutCallback_mobile) due s
      in s1\<lparr>m_timers := filter (\<lambda>u. t < u) (m_timers s), m_now := t\<rparr>)"

fun mobileStep :: "lightingMode \<Rightarrow> gesture \<Rightarrow> mobilePointer \<Rightarrow> mobilePointer" where
  "mobileStep mode (Begin ex ey) s = onBegin_mobile ex ey s"
| "mobileStep mode (Update ex ey) s = onUpdate_mobile ex ey s"
| "mobileStep mode End s = onEnd_mobile mode s"
| "mobileStep mode (Elapse d) s = elapse_mobile d s"

fun mobileRun :: "lightingMode \<Rightarrow> gesture list \<Rightarrow> mobilePointer \<Rightarrow> mobilePointer" where
  "mobileRun mode [] s = s"
| "mobileRun mode (e # es) s = mobileRun mode es (mobileStep mode e s)"

section \<open>Predicates of the statements\<close>


definition particleInv :: "particle \<Rightarrow> bool" where
  "particleInv p = (0 < life p \<and> life p \<le> 1 \<and> 0.05 \<le> decay p)"

fun validOp_mobile :: "mobileParticleOp \<Rightarrow> bool" where
  \<comment> \<open>the opacity draw of every turn of the loop is a \<open>Math.random()\<close> value\<close>
  "validOp_mobile (MSpawn x y i rnd) =
     list_all (\<lambda>k. case rnd k of (r1, r2, r3, r4, r5, r6) \<Rightarrow> unitDraw r6)
       [0..<nat \<lfloor>3 + i * 2\<rfloor>]"
| "validOp_mobile MTick = True"

section \<open>Properties of the IntensityField\<close>

lemma pi_ge_three: "3 \<le> pi"
proof -
  have "sin (pi / 6) \<le> pi / 6" by (rule sin_x_le_x) simp
  then show ?thesis by (simp add: sin_30)
qed

text \<open>
  C1. The intensity of a cell before colour mapping is claimed to lie in \<open>[0, 1]\<close> for
  every shape, mode, pointer, time and cell, and in particular for the circular shape
  with autoWave. The circular branch of \<open>drawCell\<close> clamps the sum of the base term and
  the ripple term from below only, where the linear, radial and random branches clamp
  to both ends. With the pointer held on the cell of column 2, row 2 of the dots
  pattern (pixel \<open>(21, 21)\<close>), autoWave on and the wave time at \<open>1.5\<close>, the base term is
  \<open>1\<close> and the ripple term \<open>sin (- 4.5) * 0.3\<close> is positive: the intensity exceeds \<open>1\<close>.
\<close>

theorem circular_autoWave_exceeds_one:
  "1 < cellIntensity
     \<lparr>lightingShape = ShapeCircular, lightingMode = None, colorMode = ColorSingle,
      colorPalette = [], interactionRadius = 100, autoWave = True\<rparr>
     \<lparr>touchX = 21, touchY = 21, isTouching = True, waveTime = 3 / 2\<rparr> 21 21 2 2 400 300"
proof -
  have "pi < 9 / 2" using pi_less_4 by simp
  moreover have "9 / 2 < 2 * pi" using pi_ge_three by simp
  ultimately have "sin (9 / 2 :: real) < 0" by (rule sin_lt_zero)
  then have "0 < sin (- (9 / 2) :: real)" by simp
  then show ?thesis
    by (simp add: cellIntensity_def lightingModeAdjust_def shapeIntensity_def distance_def)
qed

text \<open>
  The interactive linear, radial and random branches of the same \<open>switch\<close> do clamp to
  both ends, and the uniform mode sets the intensity to 1.
\<close>

lemma interactive_branches_clamped:
  assumes "lightingShape p = ShapeLinear \<or> lightingShape p = ShapeRadial
             \<or> lightingShape p = ShapeRandom"
    and "isTouching s \<or> autoWave p"
  shows "0 \<le> shapeIntensity p s x y col row width height
       \<and> shapeIntensity p s x y col row width height \<le> 1"
  using assms by (auto simp: shapeIntensity_def Let_def)

lemma uniform_intensity:
  "lightingMode p = Some ModeUniform \<Longrightarrow> cellIntensity p s x y col row width height = 1"
  by (simp add: cellIntensity_def lightingModeAdjust_def)

text \<open>
  C4. Circular shape, pointer down, no autoWave, no lighting-mode override (the mode
  is neither uniform nor pulse, the two that \<open>drawCell\<close> acts on): the intensity is
  \<open>max 0 (1 - distance / interactionRadius)\<close>, and \<open>1 / 2\<close> for a cell 50 pixels from
  the pointer with a radius of 100.
\<close>

theorem circular_intensity:
  assumes "lightingShape p = ShapeCircular" and "isTouching s" and "\<not> autoWave p"
    and "lightingMode p \<noteq> Some ModeUniform" and "lightingMode p \<noteq> Some ModePulse"
    and "0 < interactionRadius p"
  shows "cellIntensity p s x y col row width height
           = max 0 (1 - distance x y (touchX s) (touchY s) / interactionRadius p)
       \<and> (interactionRadius p = 100 \<and> distance x y (touchX s) (touchY s) = 50
            \<longrightarrow> cellIntensity p s x y col row width height = 1 / 2)"
  using assms by (simp add: cellIntensity_def lightingModeAdjust_def shapeIntensity_def)

lemma distance_3_4_5: "distance 230 190 200 150 = 50"
proof -
  have "sqrt ((50::real)\<^sup>2) = 50" by (simp only: real_sqrt_abs abs_numeral)
  then show ?thesis by (simp add: distance_def)
qed

text \<open>
  The scenario of C4: a canvas of 400 by 300, the pointer at its centre \<open>(200, 150)\<close>,
  a radius of 100 and the cell at \<open>(230, 190)\<close>, 50 pixels away.
\<close>

theorem circular_intensity_witness:
  "cellIntensity
     \<lparr>lightingShape = ShapeCircular, lightingMode = Some ModeGradient, colorMode = ColorSingle,
      colorPalette = [], interactionRadius = 100, autoWave = False\<rparr>
     \<lparr>touchX = 200, touchY = 150, isTouching = True, waveTime = 0\<rparr> 230 190 3 4 400 300 = 1 / 2"
  using circular_intensity[of
     "\<lparr>lightingShape = ShapeCircular, lightingMode = Some ModeGradient, colorMode = ColorSingle,
      colorPalette = [], interactionRadius = 100, autoWave = False\<rparr>"
     "\<lparr>touchX = 200, touchY = 150, isTouching = True, waveTime = 0\<rparr>" 230 190 3 4 400 300]
  by (simp add: distance_3_4_5)

text \<open>
  C10. Canvas backend, circular shape, pointer inactive and autoWave off: the shape
  computation gives intensity \<open>0\<close> for every cell, whatever its distance to the pointer
  position that is still recorded. The value stays \<open>0\<close> through the lighting-mode
  adjustment, except that the uniform mode then sets every cell to \<open>1\<close>.
\<close>

theorem circular_idle_is_dark:
  assumes "lightingShape p = ShapeCircular" and "\<not> isTouching s" and "\<not> autoWave p"
  shows "shapeIntensity p s x y col row width height = 0
       \<and> cellIntensity p s x y col row width height
           = (if lightingMode p = Some ModeUniform then 1 else 0)"
  using assms by (simp add: cellIntensity_def lightingModeAdjust_def shapeIntensity_def)

text \<open>A cell right at the recorded pointer position is dark once the pointer is up.\<close>

theorem circular_idle_is_dark_witness:
  "shapeIntensity
     \<lparr>lightingShape = ShapeCircular, lightingMode = None, colorMode = ColorSingle,
      colorPalette = [], interactionRadius = 100, autoWave = False\<rparr>
     \<lparr>touchX = 200, touchY = 150, isTouching = False, waveTime = 2\<rparr> 200 150 3 4 400 300 = 0
   \<and> cellIntensity
     \<lparr>lightingShape = ShapeCircular, lightingMode = None, colorMode = ColorSingle,
      colorPalette = [], interactionRadius = 100, autoWave = False\<rparr>
     \<lparr>touchX = 200, touchY = 150, isTouching = False, waveTime = 2\<rparr> 200 150 3 4 400 300 = 0"
  using circular_idle_is_dark[of
     "\<lparr>lightingShape = ShapeCircular, lightingMode = None, colorMode = ColorSingle,
      colorPalette = [], interactionRadius = 100, autoWave = False\<rparr>"
     "\<lparr>touchX = 200, touchY = 150, isTouching = False, waveTime = 2\<rparr>" 200 150 3 4 400 300]
  by simp

section \<open>Properties of the ColorModel and the ColorSelector\<close>

text \<open>
  C2. \<open>parse\<close> is claimed to accept 3-digit hex and never to produce a \<open>NaN\<close> channel.
  \<open>parseColor\<close> of the canvas backend always reads the hex digits in pairs at fixed
  positions: of \<open>#abc\<close> it reads \<open>ab\<close>, \<open>c\<close> and the empty string, so red is 171, green
  is 12 and blue is \<open>NaN\<close>.
\<close>

theorem parseColor_short_hex:
  "parseColor ''#abc'' = \<lparr>chan_r = Some 171, chan_g = Some 12, chan_b = None, chan_a = Some 1\<rparr>"
  by code_simp

text \<open>
  \<open>parseColor\<close> of the per-cell backend doubles the three digits and replaces a \<open>NaN\<close>
  channel by 0; both backends return opaque black for \<open>not-a-color\<close>.
\<close>

lemma parseColor_mobile_short_hex:
  "parseColor_mobile ''#abc''
     = \<lparr>chan_r = Some 170, chan_g = Some 187, chan_b = Some 204, chan_a = Some 1\<rparr>"
  by code_simp

lemma parseColor_not_a_color:
  "parseColor ''not-a-color''
     = \<lparr>chan_r = Some 0, chan_g = Some 0, chan_b = Some 0, chan_a = Some 1\<rparr>"
  "parseColor_mobile ''not-a-color''
     = \<lparr>chan_r = Some 0, chan_g = Some 0, chan_b = Some 0, chan_a = Some 1\<rparr>"
  by code_simp+

text \<open>
  C5. Interpolation at factor 0 is claimed to give the first colour, for any two
  valid colours. \<open>interpolateColor\<close> reads its colours with the \<open>parseColor\<close> of C2:
  for the 3-digit hex colour \<open>#abc\<close>, which is red 170, green 187, blue 204, and
  factor 0 it returns \<open>rgba(171, 12, NaN, 1)\<close>.
\<close>

theorem interpolate_short_hex_endpoint:
  "interpolateColor (numberToString showFrac) ''#abc'' ''#000000'' 0 = ''rgba(171, 12, NaN, 1)''"
proof -
  have c: "interpolateChannels ''#abc'' ''#000000'' 0
             = mkRgba (Some 171) (Some 12) None (Some 1)"
    by code_simp
  have "showNat 171 = ''171''" "showNat 12 = ''12''" "showNat 1 = ''1''"
    by code_simp+
  then show ?thesis
    by (simp add: interpolateColor_def c mkRgba_def numberToString_def)
qed

text \<open>
  The same colour written with six digits gives the endpoints, and a factor outside
  \<open>[0, 1]\<close> is clamped first.
\<close>

lemma interpolate_long_hex_endpoints:
  "interpolateColor (numberToString showFrac) ''#aabbcc'' ''#102030'' 0 = ''rgba(170, 187, 204, 1)''"
  "interpolateColor (numberToString showFrac) ''#aabbcc'' ''#102030'' 1 = ''rgba(16, 32, 48, 1)''"
proof -
  have c: "interpolateChannels ''#aabbcc'' ''#102030'' 0
             = mkRgba (Some 170) (Some 187) (Some 204) (Some 1)"
    "interpolateChannels ''#aabbcc'' ''#102030'' 1
             = mkRgba (Some 16) (Some 32) (Some 48) (Some 1)"
    by code_simp+
  have d: "showNat 170 = ''170''" "showNat 187 = ''187''" "showNat 204 = ''204''"
    "showNat 16 = ''16''" "showNat 32 = ''32''" "showNat 48 = ''48''"
    "showNat (Suc 0) = ''1''"
    by code_simp+
  show "interpolateColor (numberToString showFrac) ''#aabbcc'' ''#102030'' 0
          = ''rgba(170, 187, 204, 1)''"
    by (simp add: interpolateColor_def c mkRgba_def numberToString_def d)
  show "interpolateColor (numberToString showFrac) ''#aabbcc'' ''#102030'' 1
          = ''rgba(16, 32, 48, 1)''"
    by (simp add: interpolateColor_def c mkRgba_def numberToString_def d)
qed

lemma interpolateColor_clamp:
  "interpolateColor str A B f = interpolateColor str A B (max 0 (min 1 f))"
  by (simp add: interpolateColor_def interpolateChannels_def)

text \<open>
  C8. In colour mode random with a non-empty palette, the colour that \<open>drawCell\<close> blends
  with the background is the palette entry at index \<open>(col + row * 3) mod\<close> the palette
  length, an index inside the palette.
\<close>

theorem random_palette_index:
  assumes "colorMode p = ColorRandom" and "colorPalette p \<noteq> []"
  shows "cellColor str p cs x width col row intensity
           = interpolateColor str (orDefault (background cs) ''#000000'')
               (colorPalette p ! ((col + row * 3) mod length (colorPalette p))) intensity
       \<and> (col + row * 3) mod length (colorPalette p) < length (colorPalette p)"
  using assms by (simp add: cellColor_def Let_def)

text \<open>
  The scenario of C8: the palette \<open>#ff0000\<close>, \<open>#00ff00\<close> and the cell of column 1,
  row 0: index 1, base colour \<open>#00ff00\<close>.
\<close>

theorem random_palette_index_witness:
  "(1 + 0 * 3) mod length [''#ff0000'', ''#00ff00''] = (1::nat)
   \<and> [''#ff0000'', ''#00ff00''] ! ((1 + 0 * 3) mod length [''#ff0000'', ''#00ff00''])
       = ''#00ff00''
   \<and> cellColor (\<lambda>_. [])
        \<lparr>lightingShape = ShapeCircular, lightingMode = None, colorMode = ColorRandom,
         colorPalette = [''#ff0000'', ''#00ff00''], interactionRadius = 100, autoWave = False\<rparr>
        \<lparr>background = Some ''#101010'', primary = None, secondary = None\<rparr> 10 400 1 0 (1 / 2)
      = interpolateColor (\<lambda>_. []) ''#101010'' ''#00ff00'' (1 / 2)"
  using random_palette_index[of
      "\<lparr>lightingShape = ShapeCircular, lightingMode = None, colorMode = ColorRandom,
        colorPalette = [''#ff0000'', ''#00ff00''], interactionRadius = 100, autoWave = False\<rparr>"
      "\<lambda>_. []" "\<lparr>background = Some ''#101010'', primary = None, secondary = None\<rparr>"
      10 400 1 0 "1 / 2"]
  by (simp add: orDefault_def)

section \<open>Properties of the WaveSystem\<close>


















section \<open>Properties of the particles\<close>

lemma length_sliceLast: "length (sliceLast n xs) \<le> n"
  by (simp add: sliceLast_def)

lemma set_sliceLast: "set (sliceLast n xs) \<subseteq> set xs"
  by (simp add: sliceLast_def set_drop_subset)

lemma list_all_sliceLast: "list_all P xs \<Longrightarrow> list_all P (sliceLast n xs)"
  using set_sliceLast[of n xs] by (auto simp: list_all_iff)

lemma newParticle_inv:
  assumes "case rs of (r1, r2, r3, r4) \<Rightarrow> unitDraw r1 \<and> unitDraw r2 \<and> unitDraw r3 \<and> unitDraw r4"
  shows "particleInv (newParticle x y rs)"
  using assms by (cases rs) (simp add: newParticle_def particleInv_def unitDraw_def Let_def)

lemma createParticles_inv:
  assumes "validOp (Spawn x y rnd)" and "list_all particleInv ps" and "length ps \<le> 50"
  shows "list_all particleInv (createParticles en x y rnd ps)
       \<and> length (createParticles en x y rnd ps) \<le> 50"
proof (cases en)
  case False
  with assms show ?thesis by (simp add: createParticles_def)
next
  case True
  have "list_all particleInv (map (\<lambda>i. newParticle x y (rnd i)) [0..<5])"
    using assms(1) by (auto simp: list_all_iff intro!: newParticle_inv)
  with assms(2) have "list_all particleInv (ps @ map (\<lambda>i. newParticle x y (rnd i)) [0..<5])"
    by simp
  then show ?thesis using True
    by (simp add: createParticles_def Let_def list_all_sliceLast length_sliceLast)
qed

lemma drawParticles_inv:
  assumes "list_all particleInv ps" and "length ps \<le> 50"
  shows "list_all particleInv (drawParticles en ps) \<and> length (drawParticles en ps) \<le> 50"
proof -
  let ?ps' = "filter (\<lambda>p. life p > 0) (map (\<lambda>p. p\<lparr>life := life p - decay p\<rparr>) ps)"
  have "length ?ps' \<le> length (map (\<lambda>p. p\<lparr>life := life p - decay p\<rparr>) ps)"
    by (rule length_filter_le)
  also have "\<dots> = length ps" by (rule length_map)
  finally have len: "length ?ps' \<le> 50" using assms(2) by (rule order_trans)
  have inv: "list_all particleInv ?ps'"
    unfolding list_all_iff
  proof
    fix q assume "q \<in> set ?ps'"
    then obtain p where p: "p \<in> set ps" and q: "q = p\<lparr>life := life p - decay p\<rparr>"
      and pos: "0 < life q" by auto
    from assms(1) p have "particleInv p" by (simp add: list_all_iff)
    with q pos show "particleInv q" by (simp add: particleInv_def)
  qed
  show ?thesis
  proof (cases "\<not> en \<or> ps = []")
    case True
    with assms show ?thesis by (simp add: drawParticles_def)
  next
    case False
    then have "drawParticles en ps = ?ps'" by (simp add: drawParticles_def)
    with len inv show ?thesis by simp
  qed
qed

lemma particleStep_inv:
  assumes "validOp opn" and "list_all particleInv ps" and "length ps \<le> 50"
  shows "list_all particleInv (particleStep en opn ps) \<and> length (particleStep en opn ps) \<le> 50"
  using assms by (cases opn) (simp_all add: createParticles_inv drawParticles_inv)

lemma runParticles_inv:
  "list_all validOp ops \<Longrightarrow> list_all particleInv ps \<Longrightarrow> length ps \<le> 50 \<Longrightarrow>
   list_all particleInv (runParticles en ops ps) \<and> length (runParticles en ops ps) \<le> 50"
proof (induction ops arbitrary: ps)
  case Nil
  then show ?case by simp
next
  case (Cons opn ops)
  from Cons.prems
  have "list_all particleInv (particleStep en opn ps) \<and> length (particleStep en opn ps) \<le> 50"
    by (simp add: particleStep_inv)
  with Cons.prems(1) show ?case by (simp add: Cons.IH)
qed

lemma drawParticles_tick:
  "drawParticles True ps =
     map (\<lambda>p. p\<lparr>life := life p - decay p\<rparr>) (filter (\<lambda>p. 0 < life p - decay p) ps)"
  by (simp add: drawParticles_def filter_map comp_def)

lemma newParticle_mobile_opacity:
  assumes "case rs of (r1, r2, r3, r4, r5, r6) \<Rightarrow> unitDraw r6"
  shows "0 < opacity (newParticle_mobile pal x y rs)"
  using assms by (cases rs) (simp add: newParticle_mobile_def unitDraw_def Let_def)

lemma createParticles_mobile_inv:
  assumes "validOp_mobile (MSpawn x y i rnd)" and "list_all (\<lambda>p. 0 < opacity p) ps"
  shows "list_all (\<lambda>p. 0 < opacity p) (createParticles_mobile en pal x y i rnd ps)
       \<and> (length ps \<le> 30 \<longrightarrow> length (createParticles_mobile en pal x y i rnd ps) \<le> 30)"
proof (cases en)
  case False
  with assms show ?thesis by (simp add: createParticles_mobile_def)
next
  case True
  have "list_all (\<lambda>p. 0 < opacity p)
          (map (\<lambda>k. newParticle_mobile pal x y (rnd k)) [0..<nat \<lfloor>3 + i * 2\<rfloor>])"
    using assms(1) by (auto simp: list_all_iff intro!: newParticle_mobile_opacity)
  with assms(2)
  have "list_all (\<lambda>p. 0 < opacity p)
          (ps @ map (\<lambda>k. newParticle_mobile pal x y (rnd k)) [0..<nat \<lfloor>3 + i * 2\<rfloor>])"
    by simp
  then show ?thesis using True
    by (simp add: createParticles_mobile_def Let_def list_all_sliceLast length_sliceLast)
qed

lemma updateParticles_mobile_inv:
  "list_all (\<lambda>p. 0 < opacity p) (updateParticles_mobile ps)
   \<and> length (updateParticles_mobile ps) \<le> length ps"
proof -
  let ?f = "\<lambda>p. p\<lparr>mp_x := mp_x p + mp_vx p, mp_y := mp_y p + mp_vy p,
                  opacity := opacity p - 0.05\<rparr>"
  have eq: "updateParticles_mobile ps = filter (\<lambda>p. opacity p > 0) (map ?f ps)"
    by (simp only: updateParticles_mobile_def)
  have "length (filter (\<lambda>p. opacity p > 0) (map ?f ps)) \<le> length (map ?f ps)"
    by (rule length_filter_le)
  also have "\<dots> = length ps" by (rule length_map)
  finally have len: "length (updateParticles_mobile ps) \<le> length ps" by (simp only: eq)
  have "\<forall>q \<in> set (filter (\<lambda>p. opacity p > 0) (map ?f ps)). 0 < opacity q"
    by (simp only: set_filter) blast
  then have "list_all (\<lambda>p. 0 < opacity p) (updateParticles_mobile ps)"
    by (simp only: eq list_all_iff)
  then show ?thesis using len by (rule conjI)
qed

lemma runParticles_mobile_inv:
  "list_all validOp_mobile ops \<Longrightarrow> list_all (\<lambda>p. 0 < opacity p) ps \<Longrightarrow> length ps \<le> 30 \<Longrightarrow>
   list_all (\<lambda>p. 0 < opacity p) (runParticles_mobile en pal ops ps)
   \<and> length (runParticles_mobile en pal ops ps) \<le> 30"
proof (induction ops arbitrary: ps)
  case Nil
  then show ?case by simp
next
  case (Cons opn ops)
  have "list_all (\<lambda>p. 0 < opacity p) (mobileParticleStep en pal opn ps)
      \<and> length (mobileParticleStep en pal opn ps) \<le> 30"
  proof (cases opn)
    case (MSpawn x y i rnd)
    with Cons.prems show ?thesis
      using createParticles_mobile_inv[of x y i rnd ps en pal] by simp
  next
    case MTick
    with Cons.prems show ?thesis using updateParticles_mobile_inv[of ps] by simp
  qed
  with Cons.prems(1) show ?case by (simp add: Cons.IH)
qed

lemma updateParticles_mobile_tick:
  "updateParticles_mobile ps =
     map (\<lambda>p. p\<lparr>mp_x := mp_x p + mp_vx p, mp_y := mp_y p + mp_vy p,
                  opacity := opacity p - 0.05\<rparr>)
       (filter (\<lambda>p. 0 < opacity p - 0.05) ps)"
  by (simp add: updateParticles_mobile_def filter_map comp_def)

text \<open>
  C9. Starting with no particles, after any sequence of spawns (with random draws in
  \<open>[0, 1)\<close>) and ticks: the canvas backend holds at most 50 particles, each with a
  positive life that the next tick makes strictly smaller; a tick lowers the life of
  every particle by its decay and keeps exactly those whose lowered life is still
  positive; a spawn appends five particles and drops from the front, the oldest end,
  what exceeds 50. The per-cell backend, where the opacity is the life and a tick
  lowers it by 0.05, holds at most 30 particles, each with a positive opacity, and
  drops from the front what exceeds 30.
\<close>

theorem particles_decay_and_cap:
  assumes "list_all validOp ops" and "list_all validOp_mobile mops"
  shows "(let ps = runParticles en ops [] in
            length ps \<le> 50
          \<and> list_all (\<lambda>p. 0 < life p \<and> life p - decay p < life p) ps
          \<and> drawParticles True ps
              = map (\<lambda>p. p\<lparr>life := life p - decay p\<rparr>) (filter (\<lambda>p. 0 < life p - decay p) ps)
          \<and> createParticles True x y rnd ps
              = drop (length ps + 5 - 50) (ps @ map (\<lambda>i. newParticle x y (rnd i)) [0..<5]))
       \<and> (let ms = runParticles_mobile en pal mops [] in
            length ms \<le> 30
          \<and> list_all (\<lambda>p. 0 < opacity p) ms
          \<and> updateParticles_mobile ms
              = map (\<lambda>p. p\<lparr>mp_x := mp_x p + mp_vx p, mp_y := mp_y p + mp_vy p,
                           opacity := opacity p - 0.05\<rparr>)
                  (filter (\<lambda>p. 0 < opacity p - 0.05) ms)
          \<and> createParticles_mobile True pal x y i mrnd ms
              = drop (length ms + nat \<lfloor>3 + i * 2\<rfloor> - 30)
                  (ms @ map (\<lambda>k. newParticle_mobile pal x y (mrnd k)) [0..<nat \<lfloor>3 + i * 2\<rfloor>]))"
proof -
  have "list_all particleInv (runParticles en ops []) \<and> length (runParticles en ops []) \<le> 50"
    using assms(1) by (intro runParticles_inv) simp_all
  moreover have "list_all particleInv ps
      \<Longrightarrow> list_all (\<lambda>p. 0 < life p \<and> life p - decay p < life p) ps" for ps
    by (fastforce simp: list_all_iff particleInv_def)
  moreover have "createParticles True x y rnd ps
      = drop (length ps + 5 - 50) (ps @ map (\<lambda>i. newParticle x y (rnd i)) [0..<5])" for ps
    by (simp add: createParticles_def sliceLast_def)
  moreover have "createParticles_mobile True pal x y i mrnd ms
      = drop (length ms + nat \<lfloor>3 + i * 2\<rfloor> - 30)
          (ms @ map (\<lambda>k. newParticle_mobile pal x y (mrnd k)) [0..<nat \<lfloor>3 + i * 2\<rfloor>])" for ms
    by (simp add: createParticles_mobile_def sliceLast_def Let_def)
  moreover have "list_all (\<lambda>p. 0 < opacity p) (runParticles_mobile en pal mops [])
      \<and> length (runParticles_mobile en pal mops []) \<le> 30"
    using assms(2) by (intro runParticles_mobile_inv) simp_all
  ultimately show ?thesis
    unfolding Let_def
    using drawParticles_tick[of "runParticles en ops []"]
      updateParticles_mobile_tick[of "runParticles_mobile en pal mops []"]
    by blast
qed

lemma valid_spawn_tick_tick:
  "list_all validOp [Spawn 10 10 (\<lambda>_. (0, 0, 0, 1 / 2)), Tick, Tick]"
  by (simp add: unitDraw_def list_all_iff)

lemma valid_mobile_spawn_tick:
  "list_all validOp_mobile [MSpawn 10 10 1 (\<lambda>_. (0, 0, 0, 0, 0, 0)), MTick]"
  by (simp add: unitDraw_def list_all_iff)

lemma life_after_two_ticks:
  "map life (runParticles True [Spawn 10 10 (\<lambda>_. (0, 0, 0, 1 / 2)), Tick, Tick] [])
     = [17 / 20, 17 / 20, 17 / 20, 17 / 20, 17 / 20]"
  by (simp add: createParticles_def drawParticles_def newParticle_def sliceLast_def
      upt_conv_Cons)

lemma opacity_after_one_tick:
  "map opacity (runParticles_mobile True [''#ff0000'']
                  [MSpawn 10 10 1 (\<lambda>_. (0, 0, 0, 0, 0, 0)), MTick] [])
     = [13 / 20, 13 / 20, 13 / 20, 13 / 20, 13 / 20]"
  by (simp add: createParticles_mobile_def updateParticles_mobile_def newParticle_mobile_def
      sliceLast_def upt_conv_Cons)

text \<open>
  One spawn with decay 0.075 and two ticks on the canvas backend: five particles of
  life 0.85. One spawn with opacity 0.7 and one tick on the per-cell backend: five
  particles of opacity 0.65.
\<close>

theorem particles_decay_and_cap_witness:
  "list_all validOp [Spawn 10 10 (\<lambda>_. (0, 0, 0, 1 / 2)), Tick, Tick]
   \<and> list_all validOp_mobile [MSpawn 10 10 1 (\<lambda>_. (0, 0, 0, 0, 0, 0)), MTick]
   \<and> length (runParticles True [Spawn 10 10 (\<lambda>_. (0, 0, 0, 1 / 2)), Tick, Tick] []) \<le> 50
   \<and> map life (runParticles True [Spawn 10 10 (\<lambda>_. (0, 0, 0, 1 / 2)), Tick, Tick] [])
       = [17 / 20, 17 / 20, 17 / 20, 17 / 20, 17 / 20]
   \<and> length (runParticles_mobile True [''#ff0000'']
               [MSpawn 10 10 1 (\<lambda>_. (0, 0, 0, 0, 0, 0)), MTick] []) \<le> 30
   \<and> map opacity (runParticles_mobile True [''#ff0000'']
               [MSpawn 10 10 1 (\<lambda>_. (0, 0, 0, 0, 0, 0)), MTick] [])
       = [13 / 20, 13 / 20, 13 / 20, 13 / 20, 13 / 20]"
  using particles_decay_and_cap[OF valid_spawn_tick_tick valid_mobile_spawn_tick,
      of True 0 0 "\<lambda>_. (0, 0, 0, 0)" "[''#ff0000'']" 1 "\<lambda>_. (0, 0, 0, 0, 0, 0)"]
    valid_spawn_tick_tick valid_mobile_spawn_tick life_after_two_ticks opacity_after_one_tick
  by (simp only: Let_def)

section \<open>Properties of the pointer state\<close>

text \<open>
  C6. After \<open>end()\<close> the pointer is claimed to be reported active for the whole settle
  delay, 800 ms under the simple and highlight modes. \<open>onEnd\<close> of the canvas backend
  clears \<open>isTouching\<close> at once and starts a timer of 500 ms whatever the mode. Simple
  mode, autoWave off, touch and release at the cell of column 2, row 2 of the dots
  pattern: 100 ms after the release the pointer is inactive and the cell under it is
  dark; 600 ms after it the position is the sentinel \<open>(-100, -100)\<close>.
\<close>

theorem canvas_inactive_at_release:
  "canvasRun
     \<lparr>lightingShape = ShapeCircular, lightingMode = Some ModeSimple, colorMode = ColorSingle,
      colorPalette = [], interactionRadius = 100, autoWave = False,
      animationSpeed = 1, drawWidth = 400, drawHeight = 300\<rparr>
     [Begin 21 21, End, Elapse 100] canvasInit
     = \<lparr>touchX = 21, touchY = 21, isTouching = False, waveTime = 1 / 10,
        trailPositions = [], timers = [500], now = 100\<rparr>
   \<and> cellIntensity
       \<lparr>lightingShape = ShapeCircular, lightingMode = Some ModeSimple, colorMode = ColorSingle,
        colorPalette = [], interactionRadius = 100, autoWave = False\<rparr>
       \<lparr>touchX = 21, touchY = 21, isTouching = False, waveTime = 1 / 10\<rparr> 21 21 2 2 400 300 = 0
   \<and> canvasRun
     \<lparr>lightingShape = ShapeCircular, lightingMode = Some ModeSimple, colorMode = ColorSingle,
      colorPalette = [], interactionRadius = 100, autoWave = False,
      animationSpeed = 1, drawWidth = 400, drawHeight = 300\<rparr>
     [Begin 21 21, End, Elapse 600] canvasInit
     = \<lparr>touchX = - 100, touchY = - 100, isTouching = False, waveTime = 3 / 5,
        trailPositions = [], timers = [], now = 600\<rparr>"
  by (simp add: canvasInit_def onBegin_def onEnd_def elapse_def timeoutCallback_def
      updateWaveTime_def autoWavePointer_def cellIntensity_def shapeIntensity_def
      lightingModeAdjust_def)

text \<open>
  The per-cell backend keeps the pointer as it is until its timer fires, after 800 ms
  under the simple and highlight modes and after 500 ms otherwise, when no earlier
  timer is pending.
\<close>

lemma mobile_settle:
  assumes "m_timers s = []"
  shows "isTouchActive (elapse_mobile d (onEnd_mobile mode s))
           = (isTouchActive s
              \<and> d < (if mode = ModeSimple \<or> mode = ModeHighlight then 800 else 500))
       \<and> m_touchX (elapse_mobile d (onEnd_mobile mode s))
           = (if d < (if mode = ModeSimple \<or> mode = ModeHighlight then 800 else 500)
              then m_touchX s else - 100)
       \<and> m_touchY (elapse_mobile d (onEnd_mobile mode s))
           = (if d < (if mode = ModeSimple \<or> mode = ModeHighlight then 800 else 500)
              then m_touchY s else - 100)"
  using assms
  by (simp add: elapse_mobile_def onEnd_mobile_def timeoutCallback_mobile_def delayTime_def)

lemma mobile_settle_simple:
  "isTouchActive (mobileRun ModeSimple [Begin 21 21, End, Elapse 600] mobileInit)
   \<and> \<not> isTouchActive (mobileRun ModeSimple [Begin 21 21, End, Elapse 800] mobileInit)"
  by (simp add: mobileInit_def onBegin_mobile_def onEnd_mobile_def elapse_mobile_def
      timeoutCallback_mobile_def delayTime_def)

text \<open>
  C7. A settle timer superseded by a new pointer-down is claimed to be a no-op. The
  callback of the canvas backend checks the flag and leaves an active pointer alone.
\<close>

lemma canvas_superseded_timer_noop: "isTouching s \<Longrightarrow> timeoutCallback s = s"
  by (simp add: timeoutCallback_def)

lemma canvas_superseded_timer_run:
  "canvasRun v [Begin 10 20, End, Elapse 100, Begin 30 40, Elapse 400] canvasInit
     = \<lparr>touchX = 30, touchY = 40, isTouching = True,
        waveTime = 100 * 0.001 * animationSpeed v + 400 * 0.001 * animationSpeed v,
        trailPositions = [], timers = [], now = 500\<rparr>"
  by (simp add: canvasInit_def onBegin_def onEnd_def elapse_def timeoutCallback_def
      updateWaveTime_def autoWavePointer_def Let_def split: lightingShape.split)

text \<open>
  C7, per-cell backend. The callback resets the pointer without a check: touch at
  \<open>(10, 20)\<close>, release, new touch at \<open>(30, 40)\<close> 100 ms later; when the timer of the
  release fires at 500 ms, the pointer that is down is set to the sentinel and to
  inactive.
\<close>

theorem mobile_superseded_timer_resets:
  "mobileRun ModeGradient [Begin 10 20, End, Elapse 100, Begin 30 40, Elapse 400] mobileInit
     = \<lparr>m_touchX = - 100, m_touchY = - 100, isTouchActive = False,
        frameRateLimiter = 0, m_timers = [], m_now = 500\<rparr>"
  by (simp add: mobileInit_def onBegin_mobile_def onEnd_mobile_def elapse_mobile_def
      timeoutCallback_mobile_def delayTime_def)

end
